theory Spec2Isabelle
  imports Main
begin

section \<open>Python strings\<close>

text \<open>
  A Python \<^verbatim>\<open>str\<close> is a sequence of Unicode code points, so a string is modelled as
  the list of its code points and \<^verbatim>\<open>len\<close> is \<open>length\<close>. The literals of the source
  are ASCII; \<open>ascii\<close> turns an Isabelle string literal into its code points.
\<close>

type_synonym pystr = "nat list"

definition ascii :: "string \<Rightarrow> pystr" where
  "ascii s = map of_char s"

text \<open>
  \<^verbatim>\<open>str.isdigit()\<close> holds when the string is not empty and every character has the Unicode
  property Numeric_Type=Digit or Numeric_Type=Decimal. The table lists those code points as
  closed ranges (Unicode 14.0, the database of CPython 3.11); the ASCII digits are the first
  range.
\<close>

definition digit_ranges :: "(nat \<times> nat) list" where
  "digit_ranges =
    [
     (48, 57), (178, 179), (185, 185), (1632, 1641), (1776, 1785), (1984, 1993), (2406, 2415),
     (2534, 2543), (2662, 2671), (2790, 2799), (2918, 2927), (3046, 3055), (3174, 3183), (3302,
     3311), (3430, 3439), (3558, 3567), (3664, 3673), (3792, 3801), (3872, 3881), (4160, 4169),
     (4240, 4249), (4969, 4977), (6112, 6121), (6160, 6169), (6470, 6479), (6608, 6618), (6784,
     6793), (6800, 6809), (6992, 7001), (7088, 7097), (7232, 7241), (7248, 7257), (8304, 8304),
     (8308, 8313), (8320, 8329), (9312, 9320), (9332, 9340), (9352, 9360), (9450, 9450), (9461,
     9469), (9471, 9471), (10102, 10110), (10112, 10120), (10122, 10130), (42528, 42537),
     (43216, 43225), (43264, 43273), (43472, 43481), (43504, 43513), (43600, 43609), (44016,
     44025), (65296, 65305), (66720, 66729), (68160, 68163), (68912, 68921), (69216, 69224),
     (69714, 69722), (69734, 69743), (69872, 69881), (69942, 69951), (70096, 70105), (70384,
     70393), (70736, 70745), (70864, 70873), (71248, 71257), (71360, 71369), (71472, 71481),
     (71904, 71913), (72016, 72025), (72784, 72793), (73040, 73049), (73120, 73129), (92768,
     92777), (92864, 92873), (93008, 93017), (120782, 120831), (123200, 123209), (123632,
     123641), (125264, 125273), (127232, 127242), (130032, 130041)
    ]"

definition isdigit_cp :: "nat \<Rightarrow> bool" where
  "isdigit_cp c = list_ex (\<lambda>(lo, hi). lo \<le> c \<and> c \<le> hi) digit_ranges"

definition py_isdigit :: "pystr \<Rightarrow> bool" where
  "py_isdigit s = (s \<noteq> [] \<and> list_all isdigit_cp s)"

text \<open>
  \<^verbatim>\<open>str.upper()\<close> maps every character by the full Unicode upper-case mapping, one
  character at a time. \<open>upper_special\<close> holds the characters that map to several characters;
  \<open>upper_runs\<close> holds the others that change: a row \<open>(lo, hi, step, tgt)\<close> sends the
  characters \<open>lo, lo + step, ..., hi\<close> to \<open>tgt, tgt + step, ...\<close>. Every other
  character is left as it is.
\<close>

definition upper_special :: "(nat \<times> nat list) list" where
  "upper_special =
    [
     (223, [83, 83]), (329, [700, 78]), (496, [74, 780]), (912, [921, 776, 769]), (944, [933,
     776, 769]), (1415, [1333, 1362]), (7830, [72, 817]), (7831, [84, 776]), (7832, [87, 778]),
     (7833, [89, 778]), (7834, [65, 702]), (8016, [933, 787]), (8018, [933, 787, 768]), (8020,
     [933, 787, 769]), (8022, [933, 787, 834]), (8064, [7944, 921]), (8065, [7945, 921]),
     (8066, [7946, 921]), (8067, [7947, 921]), (8068, [7948, 921]), (8069, [7949, 921]), (8070,
     [7950, 921]), (8071, [7951, 921]), (8072, [7944, 921]), (8073, [7945, 921]), (8074, [7946,
     921]), (8075, [7947, 921]), (8076, [7948, 921]), (8077, [7949, 921]), (8078, [7950, 921]),
     (8079, [7951, 921]), (8080, [7976, 921]), (8081, [7977, 921]), (8082, [7978, 921]), (8083,
     [7979, 921]), (8084, [7980, 921]), (8085, [7981, 921]), (8086, [7982, 921]), (8087, [7983,
     921]), (8088, [7976, 921]), (8089, [7977, 921]), (8090, [7978, 921]), (8091, [7979, 921]),
     (8092, [7980, 921]), (8093, [7981, 921]), (8094, [7982, 921]), (8095, [7983, 921]), (8096,
     [8040, 921]), (8097, [8041, 921]), (8098, [8042, 921]), (8099, [8043, 921]), (8100, [8044,
     921]), (8101, [8045, 921]), (8102, [8046, 921]), (8103, [8047, 921]), (8104, [8040, 921]),
     (8105, [8041, 921]), (8106, [8042, 921]), (8107, [8043, 921]), (8108, [8044, 921]), (8109,
     [8045, 921]), (8110, [8046, 921]), (8111, [8047, 921]), (8114, [8122, 921]), (8115, [913,
     921]), (8116, [902, 921]), (8118, [913, 834]), (8119, [913, 834, 921]), (8124, [913,
     921]), (8130, [8138, 921]), (8131, [919, 921]), (8132, [905, 921]), (8134, [919, 834]),
     (8135, [919, 834, 921]), (8140, [919, 921]), (8146, [921, 776, 768]), (8147, [921, 776,
     769]), (8150, [921, 834]), (8151, [921, 776, 834]), (8162, [933, 776, 768]), (8163, [933,
     776, 769]), (8164, [929, 787]), (8166, [933, 834]), (8167, [933, 776, 834]), (8178, [8186,
     921]), (8179, [937, 921]), (8180, [911, 921]), (8182, [937, 834]), (8183, [937, 834,
     921]), (8188, [937, 921]), (64256, [70, 70]), (64257, [70, 73]), (64258, [70, 76]),
     (64259, [70, 70, 73]), (64260, [70, 70, 76]), (64261, [83, 84]), (64262, [83, 84]),
     (64275, [1348, 1350]), (64276, [1348, 1333]), (64277, [1348, 1339]), (64278, [1358,
     1350]), (64279, [1348, 1341])
    ]"

definition upper_runs :: "(nat \<times> nat \<times> nat \<times> nat) list" where
  "upper_runs =
    [
     (97, 122, 1, 65), (181, 181, 1, 924), (224, 246, 1, 192), (248, 254, 1, 216), (255, 255,
     1, 376), (257, 303, 2, 256), (305, 305, 1, 73), (307, 311, 2, 306), (314, 328, 2, 313),
     (331, 375, 2, 330), (378, 382, 2, 377), (383, 383, 1, 83), (384, 384, 1, 579), (387, 389,
     2, 386), (392, 392, 1, 391), (396, 396, 1, 395), (402, 402, 1, 401), (405, 405, 1, 502),
     (409, 409, 1, 408), (410, 410, 1, 573), (414, 414, 1, 544), (417, 421, 2, 416), (424, 424,
     1, 423), (429, 429, 1, 428), (432, 432, 1, 431), (436, 438, 2, 435), (441, 441, 1, 440),
     (445, 445, 1, 444), (447, 447, 1, 503), (453, 453, 1, 452), (454, 454, 1, 452), (456, 456,
     1, 455), (457, 457, 1, 455), (459, 459, 1, 458), (460, 460, 1, 458), (462, 476, 2, 461),
     (477, 477, 1, 398), (479, 495, 2, 478), (498, 498, 1, 497), (499, 499, 1, 497), (501, 501,
     1, 500), (505, 543, 2, 504), (547, 563, 2, 546), (572, 572, 1, 571), (575, 576, 1, 11390),
     (578, 578, 1, 577), (583, 591, 2, 582), (592, 592, 1, 11375), (593, 593, 1, 11373), (594,
     594, 1, 11376), (595, 595, 1, 385), (596, 596, 1, 390), (598, 599, 1, 393), (601, 601, 1,
     399), (603, 603, 1, 400), (604, 604, 1, 42923), (608, 608, 1, 403), (609, 609, 1, 42924),
     (611, 611, 1, 404), (613, 613, 1, 42893), (614, 614, 1, 42922), (616, 616, 1, 407), (617,
     617, 1, 406), (618, 618, 1, 42926), (619, 619, 1, 11362), (620, 620, 1, 42925), (623, 623,
     1, 412), (625, 625, 1, 11374), (626, 626, 1, 413), (629, 629, 1, 415), (637, 637, 1,
     11364), (640, 640, 1, 422), (642, 642, 1, 42949), (643, 643, 1, 425), (647, 647, 1,
     42929), (648, 648, 1, 430), (649, 649, 1, 580), (650, 651, 1, 433), (652, 652, 1, 581),
     (658, 658, 1, 439), (669, 669, 1, 42930), (670, 670, 1, 42928), (837, 837, 1, 921), (881,
     883, 2, 880), (887, 887, 1, 886), (891, 893, 1, 1021), (940, 940, 1, 902), (941, 943, 1,
     904), (945, 961, 1, 913), (962, 962, 1, 931), (963, 971, 1, 931), (972, 972, 1, 908),
     (973, 974, 1, 910), (976, 976, 1, 914), (977, 977, 1, 920), (981, 981, 1, 934), (982, 982,
     1, 928), (983, 983, 1, 975), (985, 1007, 2, 984), (1008, 1008, 1, 922), (1009, 1009, 1,
     929), (1010, 1010, 1, 1017), (1011, 1011, 1, 895), (1013, 1013, 1, 917), (1016, 1016, 1,
     1015), (1019, 1019, 1, 1018), (1072, 1103, 1, 1040), (1104, 1119, 1, 1024), (1121, 1153,
     2, 1120), (1163, 1215, 2, 1162), (1218, 1230, 2, 1217), (1231, 1231, 1, 1216), (1233,
     1327, 2, 1232), (1377, 1414, 1, 1329), (4304, 4346, 1, 7312), (4349, 4351, 1, 7357),
     (5112, 5117, 1, 5104), (7296, 7296, 1, 1042), (7297, 7297, 1, 1044), (7298, 7298, 1,
     1054), (7299, 7300, 1, 1057), (7301, 7301, 1, 1058), (7302, 7302, 1, 1066), (7303, 7303,
     1, 1122), (7304, 7304, 1, 42570), (7545, 7545, 1, 42877), (7549, 7549, 1, 11363), (7566,
     7566, 1, 42950), (7681, 7829, 2, 7680), (7835, 7835, 1, 7776), (7841, 7935, 2, 7840),
     (7936, 7943, 1, 7944), (7952, 7957, 1, 7960), (7968, 7975, 1, 7976), (7984, 7991, 1,
     7992), (8000, 8005, 1, 8008), (8017, 8023, 2, 8025), (8032, 8039, 1, 8040), (8048, 8049,
     1, 8122), (8050, 8053, 1, 8136), (8054, 8055, 1, 8154), (8056, 8057, 1, 8184), (8058,
     8059, 1, 8170), (8060, 8061, 1, 8186), (8112, 8113, 1, 8120), (8126, 8126, 1, 921), (8144,
     8145, 1, 8152), (8160, 8161, 1, 8168), (8165, 8165, 1, 8172), (8526, 8526, 1, 8498),
     (8560, 8575, 1, 8544), (8580, 8580, 1, 8579), (9424, 9449, 1, 9398), (11312, 11359, 1,
     11264), (11361, 11361, 1, 11360), (11365, 11365, 1, 570), (11366, 11366, 1, 574), (11368,
     11372, 2, 11367), (11379, 11379, 1, 11378), (11382, 11382, 1, 11381), (11393, 11491, 2,
     11392), (11500, 11502, 2, 11499), (11507, 11507, 1, 11506), (11520, 11557, 1, 4256),
     (11559, 11559, 1, 4295), (11565, 11565, 1, 4301), (42561, 42605, 2, 42560), (42625, 42651,
     2, 42624), (42787, 42799, 2, 42786), (42803, 42863, 2, 42802), (42874, 42876, 2, 42873),
     (42879, 42887, 2, 42878), (42892, 42892, 1, 42891), (42897, 42899, 2, 42896), (42900,
     42900, 1, 42948), (42903, 42921, 2, 42902), (42933, 42947, 2, 42932), (42952, 42954, 2,
     42951), (42961, 42961, 1, 42960), (42967, 42969, 2, 42966), (42998, 42998, 1, 42997),
     (43859, 43859, 1, 42931), (43888, 43967, 1, 5024), (65345, 65370, 1, 65313), (66600,
     66639, 1, 66560), (66776, 66811, 1, 66736), (66967, 66977, 1, 66928), (66979, 66993, 1,
     66940), (66995, 67001, 1, 66956), (67003, 67004, 1, 66964), (68800, 68850, 1, 68736),
     (71872, 71903, 1, 71840), (93792, 93823, 1, 93760), (125218, 125251, 1, 125184)
    ]"

definition upper_cp :: "nat \<Rightarrow> nat list" where
  "upper_cp c =
     (case map_of upper_special c of
        Some u \<Rightarrow> u
      | None \<Rightarrow>
          (case find (\<lambda>(lo, hi, step, tgt). lo \<le> c \<and> c \<le> hi \<and> (c - lo) mod step = 0) upper_runs of
             Some (lo, hi, step, tgt) \<Rightarrow> [tgt + (c - lo)]
           | None \<Rightarrow> [c]))"

definition py_upper :: "pystr \<Rightarrow> pystr" where
  "py_upper s = concat (map upper_cp s)"

text \<open>\<^verbatim>\<open>str(n)\<close> for a non-negative integer, as the f-strings of the log messages print it.\<close>

fun decimal :: "nat \<Rightarrow> pystr" where
  "decimal n = (if n < 10 then [48 + n] else decimal (n div 10) @ [48 + n mod 10])"

section \<open>Parsed JSON and the Python operations on it\<close>

text \<open>
  What \<^verbatim>\<open>response.json()\<close> can return: \<^verbatim>\<open>None\<close>, a bool, an int, a float, a str, a
  list or a dict with string keys. A dict is kept as the list of its items in insertion
  order, looked up with \<open>map_of\<close>; the keys of a parsed dict are distinct. A float is a
  finite value \<open>m * 2 ^ e\<close> or one of the three special values the parser accepts; the
  handler only tests a float for being zero and passes it on.
\<close>

datatype pyfloat = FloatVal int int | PosInf | NegInf | NaN

datatype json =
    JNull
  | JBool bool
  | JInt int
  | JFloat pyfloat
  | JString pystr
  | JArray "json list"
  | JObject "(pystr \<times> json) list"

datatype py_exception =
    AttributeError
  | TypeError
  | KeyError
  | IndexError
  | JSONDecodeError
  | RequestError pystr
  | HTTPStatusError nat
  | HTTPException nat pystr
  | RateLimitExceeded

fun float_nonzero :: "pyfloat \<Rightarrow> bool" where
  "float_nonzero (FloatVal m e) = (m \<noteq> 0)"
| "float_nonzero PosInf = True"
| "float_nonzero NegInf = True"
| "float_nonzero NaN = True"

text \<open>Python's truth value of an object, as \<^verbatim>\<open>not x\<close> and \<^verbatim>\<open>x or y\<close> test it.\<close>

fun truthy :: "json \<Rightarrow> bool" where
  "truthy JNull = False"
| "truthy (JBool b) = b"
| "truthy (JInt i) = (i \<noteq> 0)"
| "truthy (JFloat f) = float_nonzero f"
| "truthy (JString s) = (s \<noteq> [])"
| "truthy (JArray xs) = (xs \<noteq> [])"
| "truthy (JObject kvs) = (kvs \<noteq> [])"

definition py_or :: "json \<Rightarrow> json \<Rightarrow> json" where
  "py_or a b = (if truthy a then a else b)"

text \<open>\<^verbatim>\<open>x.get(key, default)\<close>: only a dict has the method.\<close>

fun dict_get :: "json \<Rightarrow> pystr \<Rightarrow> json \<Rightarrow> py_exception + json" where
  "dict_get (JObject kvs) k d = Inr (case map_of kvs k of None \<Rightarrow> d | Some v \<Rightarrow> v)"
| "dict_get _ k d = Inl AttributeError"

text \<open>\<^verbatim>\<open>x[key]\<close> with a string key.\<close>

fun getitem_key :: "json \<Rightarrow> pystr \<Rightarrow> py_exception + json" where
  "getitem_key (JObject kvs) k = (case map_of kvs k of None \<Rightarrow> Inl KeyError | Some v \<Rightarrow> Inr v)"
| "getitem_key _ k = Inl TypeError"

text \<open>
  \<^verbatim>\<open>x[i]\<close> with an index \<open>i \<ge> 0\<close>. A dict parsed from JSON has string keys only, so an
  integer key is never found in it.
\<close>

fun getitem_index :: "json \<Rightarrow> nat \<Rightarrow> py_exception + json" where
  "getitem_index (JArray xs) i = (if i < length xs then Inr (xs ! i) else Inl IndexError)"
| "getitem_index (JString s) i = (if i < length s then Inr (JString [s ! i]) else Inl IndexError)"
| "getitem_index (JObject kvs) i = Inl KeyError"
| "getitem_index _ i = Inl TypeError"

text \<open>\<^verbatim>\<open>x.upper()\<close>: only a str has the method.\<close>

fun str_upper :: "json \<Rightarrow> py_exception + pystr" where
  "str_upper (JString s) = Inr (py_upper s)"
| "str_upper _ = Inl AttributeError"

text \<open>Sequencing of statements that may raise: the first exception ends the run.\<close>

fun and_then :: "py_exception + 'a \<Rightarrow> ('a \<Rightarrow> py_exception + 'b) \<Rightarrow> py_exception + 'b" where
  "and_then (Inl e) f = Inl e"
| "and_then (Inr x) f = f x"

section \<open>The response mapper\<close>

text \<open>The three bodies the handler returns (the dict literals of lines 112, 120 and 122).\<close>

definition not_found_body :: "pystr \<Rightarrow> json" where
  "not_found_body number =
     JObject [(ascii ''ok'', JBool False), (ascii ''reason'', JString (ascii ''not_found'')),
              (ascii ''number'', JString number)]"

definition inactive_body :: "pystr \<Rightarrow> json" where
  "inactive_body number =
     JObject [(ascii ''ok'', JBool False), (ascii ''reason'', JString (ascii ''inactive'')),
              (ascii ''number'', JString number)]"

definition found_body :: "pystr \<Rightarrow> json \<Rightarrow> json \<Rightarrow> json \<Rightarrow> json" where
  "found_body number type' first_name last_name =
     JObject [(ascii ''ok'', JBool True), (ascii ''number'', JString number),
              (ascii ''type'', type'), (ascii ''first_name'', first_name),
              (ascii ''last_name'', last_name)]"

text \<open>
  Lines 111 to 127 of \<^verbatim>\<open>check_npi\<close>: from the parsed document \<^verbatim>\<open>data\<close> to the returned
  body, or to the exception a statement raises on the way.
\<close>

definition response_mapper :: "pystr \<Rightarrow> json \<Rightarrow> py_exception + json" where
  "response_mapper number data =
     and_then (dict_get data (ascii ''results'') JNull) (\<lambda>results.
       if \<not> truthy results then Inr (not_found_body number)
       else
         and_then (getitem_key data (ascii ''results'')) (\<lambda>rs.
         and_then (getitem_index rs 0) (\<lambda>entry.
         and_then (dict_get entry (ascii ''basic'') (JObject [])) (\<lambda>basic.
         and_then (dict_get basic (ascii ''status'') JNull) (\<lambda>st.
         and_then (str_upper (py_or st (JString []))) (\<lambda>status.
         and_then (dict_get entry (ascii ''enumeration_type'') (JString [])) (\<lambda>type'.
           if status \<noteq> ascii ''A'' then Inr (inactive_body number)
           else
             and_then (dict_get basic (ascii ''first_name'') JNull) (\<lambda>first_name.
             and_then (dict_get basic (ascii ''last_name'') JNull) (\<lambda>last_name.
               Inr (found_body number type' first_name last_name))))))))))"

section \<open>The upstream call\<close>

text \<open>
  What the registry answers when it is asked: a transport failure (\<^verbatim>\<open>httpx.RequestError\<close>,
  with the text it prints), or a response with its status code and the document its body
  parses to (\<open>None\<close> when the body is not JSON, where \<^verbatim>\<open>response.json()\<close> raises
  \<^verbatim>\<open>json.JSONDecodeError\<close>).
\<close>

record upstream_response =
  status_code :: nat
  json_body :: "json option"

type_synonym upstream_reply = "pystr + upstream_response"

text \<open>\<^verbatim>\<open>raise_for_status()\<close> raises \<^verbatim>\<open>httpx.HTTPStatusError\<close> unless the status is 2xx.\<close>

definition is_success :: "upstream_response \<Rightarrow> bool" where
  "is_success response = (200 \<le> status_code response \<and> status_code response \<le> 299)"

text \<open>Lines 81 to 83: the module's settings for the HTTP client.\<close>

record limits =
  max_keepalive_connections :: nat
  max_connections :: nat

definition NPPES_API :: pystr where
  "NPPES_API = ascii ''https://npiregistry.cms.hhs.gov/api/''"

definition HTTP_TIMEOUT :: nat where
  "HTTP_TIMEOUT = 5"

definition HTTP_LIMITS :: limits where
  "HTTP_LIMITS = \<lparr>max_keepalive_connections = 5, max_connections = 10\<rparr>"

text \<open>
  An \<^verbatim>\<open>httpx.AsyncClient\<close> object owns its connection pool. Objects are told apart by an
  identity: the process numbers the clients it constructs.
\<close>

record async_client =
  client_id :: nat
  client_timeout :: nat
  client_limits :: limits

text \<open>
  The state of the process that the handler reads or changes: the storage of the rate
  limiter, the clients constructed so far and those still open, the GET requests issued
  (client, URL, query parameters) and the lines written by \<^verbatim>\<open>logger.error\<close>.
\<close>

record 'l server =
  limiter :: 'l
  next_client :: nat
  open_clients :: "async_client list"
  upstream_calls :: "(async_client \<times> pystr \<times> (pystr \<times> pystr) list) list"
  error_log :: "pystr list"

text \<open>
  Lines 98 to 101, the body of the \<^verbatim>\<open>try\<close>: construct a client and enter it, issue the
  GET, check the status, parse the body; the \<^verbatim>\<open>async with\<close> closes the client on every
  way out.
\<close>

definition fetch ::
  "upstream_reply \<Rightarrow> (pystr \<times> pystr) list \<Rightarrow> 'l server \<Rightarrow> (py_exception + json) \<times> 'l server" where
  "fetch reply params s =
     (let client = \<lparr>client_id = next_client s, client_timeout = HTTP_TIMEOUT,
                     client_limits = HTTP_LIMITS\<rparr>;
          s1 = s\<lparr>next_client := Suc (next_client s), open_clients := client # open_clients s\<rparr>;
          s2 = s1\<lparr>upstream_calls := upstream_calls s1 @ [(client, NPPES_API, params)]\<rparr>;
          data =
            (case reply of
               Inl cause \<Rightarrow> Inl (RequestError cause)
             | Inr response \<Rightarrow>
                 if \<not> is_success response then Inl (HTTPStatusError (status_code response))
                 else (case json_body response of
                         None \<Rightarrow> Inl JSONDecodeError
                       | Some d \<Rightarrow> Inr d));
          s3 = s2\<lparr>open_clients := remove1 client (open_clients s2)\<rparr>
      in (data, s3))"

section \<open>The handler\<close>

text \<open>
  \<^verbatim>\<open>check_npi\<close>, lines 90 to 127. The result is the returned dict (\<open>Inr\<close>) or the exception
  that leaves the function (\<open>Inl\<close>). The two \<^verbatim>\<open>except\<close> clauses catch
  \<^verbatim>\<open>httpx.RequestError\<close> and \<^verbatim>\<open>httpx.HTTPStatusError\<close>; any other exception passes them.
\<close>

definition check_npi ::
  "upstream_reply \<Rightarrow> pystr \<Rightarrow> 'l server \<Rightarrow> (py_exception + json) \<times> 'l server" where
  "check_npi reply number s =
     (if \<not> py_isdigit number \<or> length number \<noteq> 10
      then (Inl (HTTPException 400 (ascii ''Invalid NPI number format'')), s)
      else
        let params = [(ascii ''version'', ascii ''2.1''), (ascii ''number'', number)];
            (r, s') = fetch reply params s
        in case r of
             Inl (RequestError e) \<Rightarrow>
               (Inl (HTTPException 500 (ascii ''NPPES API request failed'')),
                s'\<lparr>error_log := error_log s' @
                  [ascii ''Connection error while checking NPI '' @ number @ ascii '': '' @ e]\<rparr>)
           | Inl (HTTPStatusError code) \<Rightarrow>
               (Inl (HTTPException 500 (ascii ''NPPES API returned error'')),
                s'\<lparr>error_log := error_log s' @
                  [ascii ''NPPES API returned error for NPI '' @ number @ ascii '': '' @ decimal code]\<rparr>)
           | Inl e \<Rightarrow> (Inl e, s')
           | Inr data \<Rightarrow> (response_mapper number data, s'))"

section \<open>The route: rate limit and responses\<close>

text \<open>
  The limiter is the library's: \<^verbatim>\<open>limiter.limit("10/minute")\<close> wraps the handler, asks the
  limiter's storage whether this hit of the client's key is within the limit, and raises
  \<^verbatim>\<open>RateLimitExceeded\<close> without calling the handler when it is not. The limiter is a
  parameter \<open>hit\<close> of the model: from the limit, the key, the time and the storage to
  the verdict and the new storage.
\<close>

record rate_limit_item =
  amount :: nat
  per_seconds :: nat

definition check_npi_limit :: rate_limit_item where
  "check_npi_limit = \<lparr>amount = 10, per_seconds = 60\<rparr>"

type_synonym 'l limiter_hit = "rate_limit_item \<Rightarrow> pystr \<Rightarrow> nat \<Rightarrow> 'l \<Rightarrow> bool \<times> 'l"

definition limited_check_npi ::
  "'l limiter_hit \<Rightarrow> pystr \<Rightarrow> nat \<Rightarrow> upstream_reply \<Rightarrow> pystr \<Rightarrow> 'l server
    \<Rightarrow> (py_exception + json) \<times> 'l server" where
  "limited_check_npi hit key now reply number s =
     (let (allowed, l') = hit check_npi_limit key now (limiter s);
          s1 = s\<lparr>limiter := l'\<rparr>
      in if \<not> allowed then (Inl RateLimitExceeded, s1) else check_npi reply number s1)"

text \<open>
  A fixed-window limiter with in-memory storage, the kind the library uses when no
  strategy is named: per key a counter and the time its window ends. A hit starts a new
  window when the old one has ended, counts itself, and is allowed while the counter is
  within the amount.
\<close>

definition fixed_window_hit :: "(pystr \<Rightarrow> (nat \<times> nat) option) limiter_hit" where
  "fixed_window_hit item key now storage =
     (let live = (case storage key of
                    None \<Rightarrow> None
                  | Some (n, expiry) \<Rightarrow> if expiry \<le> now then None else Some (n, expiry));
          (n', expiry') = (case live of
                             None \<Rightarrow> (1, now + per_seconds item)
                           | Some (n, expiry) \<Rightarrow> (n + 1, expiry))
      in (n' \<le> amount item, storage(key \<mapsto> (n', expiry'))))"

text \<open>
  The responses the framework sends: a returned dict is a 200 JSON body, an
  \<^verbatim>\<open>HTTPException\<close> is its status with the detail, \<^verbatim>\<open>RateLimitExceeded\<close> goes to the
  registered handler (lines 71 to 76), and any other exception is the server's plain
  500 answer.
\<close>

datatype content = Json json | PlainText pystr

record http_response =
  status :: nat
  body :: content

definition rate_limit_handler :: "py_exception \<Rightarrow> http_response" where
  "rate_limit_handler exc =
     \<lparr>status = 429,
      body = Json (JObject [(ascii ''ok'', JBool False),
                            (ascii ''reason'', JString (ascii ''too_many_requests'')),
                            (ascii ''detail'', JString (ascii ''Rate limit exceeded''))])\<rparr>"

fun respond :: "py_exception + json \<Rightarrow> http_response" where
  "respond (Inr d) = \<lparr>status = 200, body = Json d\<rparr>"
| "respond (Inl (HTTPException code detail)) =
     \<lparr>status = code, body = Json (JObject [(ascii ''detail'', JString detail)])\<rparr>"
| "respond (Inl RateLimitExceeded) = rate_limit_handler RateLimitExceeded"
| "respond (Inl e) = \<lparr>status = 500, body = PlainText (ascii ''Internal Server Error'')\<rparr>"

definition get_check_npi ::
  "'l limiter_hit \<Rightarrow> pystr \<Rightarrow> nat \<Rightarrow> upstream_reply \<Rightarrow> pystr \<Rightarrow> 'l server
    \<Rightarrow> http_response \<times> 'l server" where
  "get_check_npi hit key now reply number s =
     (let (r, s') = limited_check_npi hit key now reply number s in (respond r, s'))"

section \<open>Auxiliary definitions\<close>

text \<open>
  Lines 115 to 127 on their own: what the handler makes of \<^verbatim>\<open>entry\<close>, the first element
  of the results.
\<close>

definition entry_outcome :: "pystr \<Rightarrow> json \<Rightarrow> py_exception + json" where
  "entry_outcome number entry =
     and_then (dict_get entry (ascii ''basic'') (JObject [])) (\<lambda>basic.
     and_then (dict_get basic (ascii ''status'') JNull) (\<lambda>st.
     and_then (str_upper (py_or st (JString []))) (\<lambda>status.
     and_then (dict_get entry (ascii ''enumeration_type'') (JString [])) (\<lambda>type'.
       if status \<noteq> ascii ''A'' then Inr (inactive_body number)
       else
         and_then (dict_get basic (ascii ''first_name'') JNull) (\<lambda>first_name.
         and_then (dict_get basic (ascii ''last_name'') JNull) (\<lambda>last_name.
           Inr (found_body number type' first_name last_name)))))))"

text \<open>
  The documents the mapper is written for, level by level: the document is an object; its
  results value is absent, not truthy, or an array whose first element is an object; the
  basic value of that element is absent or an object; the status value of basic is absent,
  a string, or not truthy. Other keys and other elements are not looked at.
\<close>

fun status_shape :: "json option \<Rightarrow> bool" where
  "status_shape None = True"
| "status_shape (Some (JString st)) = True"
| "status_shape (Some v) = (\<not> truthy v)"

fun basic_shape :: "json option \<Rightarrow> bool" where
  "basic_shape None = True"
| "basic_shape (Some (JObject basic)) = status_shape (map_of basic (ascii ''status''))"
| "basic_shape (Some v) = False"

fun entry_shape :: "json \<Rightarrow> bool" where
  "entry_shape (JObject entry) = basic_shape (map_of entry (ascii ''basic''))"
| "entry_shape v = False"

fun results_shape :: "json option \<Rightarrow> bool" where
  "results_shape None = True"
| "results_shape (Some (JArray (entry # rest))) = entry_shape entry"
| "results_shape (Some v) = (\<not> truthy v)"

fun expected_shape :: "json \<Rightarrow> bool" where
  "expected_shape (JObject doc) = results_shape (map_of doc (ascii ''results''))"
| "expected_shape v = False"

text \<open>The three outcomes of a lookup, as results of the mapper.\<close>

definition is_lookup_result :: "pystr \<Rightarrow> py_exception + json \<Rightarrow> bool" where
  "is_lookup_result number r =
     (r = Inr (not_found_body number) \<or> r = Inr (inactive_body number) \<or>
      (\<exists>type' first_name last_name. r = Inr (found_body number type' first_name last_name)))"

text \<open>A process that has just started, with the storage of a fixed-window limiter.\<close>

definition server0 :: "(pystr \<Rightarrow> (nat \<times> nat) option) server" where
  "server0 = \<lparr>limiter = Map.empty, next_client = 0, open_clients = [], upstream_calls = [],
              error_log = []\<rparr>"

text \<open>The query parameters of line 95, and the client that line 98 constructs in a state.\<close>

definition check_npi_params :: "pystr \<Rightarrow> (pystr \<times> pystr) list" where
  "check_npi_params number = [(ascii ''version'', ascii ''2.1''), (ascii ''number'', number)]"

definition new_client :: "'l server \<Rightarrow> async_client" where
  "new_client s = \<lparr>client_id = next_client s, client_timeout = 5,
                    client_limits = \<lparr>max_keepalive_connections = 5, max_connections = 10\<rparr>\<rparr>"

section \<open>Facts about strings\<close>

lemma upper_A: "py_upper (ascii ''A'') = ascii ''A''"
  by (simp add: py_upper_def upper_cp_def upper_special_def upper_runs_def ascii_def)

lemma upper_a: "py_upper (ascii ''a'') = ascii ''A''"
  by (simp add: py_upper_def upper_cp_def upper_special_def upper_runs_def ascii_def)

lemma upper_empty: "py_upper [] = []"
  by (simp add: py_upper_def)

lemma empty_not_A: "[] \<noteq> ascii ''A''"
  by (simp add: ascii_def)

lemma upper_65: "py_upper [65] = [65]"
  using upper_A by (simp add: ascii_def)

lemma isdigit_cp_ascii: "48 \<le> c \<Longrightarrow> c \<le> 57 \<Longrightarrow> isdigit_cp c"
  by (simp add: isdigit_cp_def digit_ranges_def)

lemma py_isdigit_ascii:
  "number \<noteq> [] \<Longrightarrow> list_all (\<lambda>c. 48 \<le> c \<and> c \<le> 57) number \<Longrightarrow> py_isdigit number"
  by (simp add: py_isdigit_def list_all_iff isdigit_cp_ascii)

lemma isdigit_1234567890: "py_isdigit (ascii ''1234567890'')"
  by (rule py_isdigit_ascii) (simp_all add: ascii_def)

lemma length_1234567890: "length (ascii ''1234567890'') = 10"
  by (simp add: ascii_def)

lemma isdigit_arabic_indic: "py_isdigit [1632, 1633, 1634, 1635, 1636, 1637, 1638, 1639, 1640, 1641]"
  by (simp add: py_isdigit_def isdigit_cp_def digit_ranges_def)

section \<open>The mapper, case by case\<close>

text \<open>A results value that is not truthy: line 112.\<close>

lemma mapper_falsy_results:
  assumes "\<not> truthy (case map_of doc (ascii ''results'') of None \<Rightarrow> JNull | Some v \<Rightarrow> v)"
  shows "response_mapper number (JObject doc) = Inr (not_found_body number)"
  using assms by (simp add: response_mapper_def)

text \<open>A results value that is a non-empty array: the lines after 114 run on its first element.\<close>

lemma mapper_first_entry:
  assumes "map_of doc (ascii ''results'') = Some (JArray (entry # rest))"
  shows "response_mapper number (JObject doc) = entry_outcome number entry"
  using assms by (simp add: response_mapper_def entry_outcome_def)

lemma entry_outcome_object:
  assumes "dict_get (JObject entry) (ascii ''basic'') (JObject []) = Inr (JObject basic)"
      and "str_upper (py_or (case map_of basic (ascii ''status'') of None \<Rightarrow> JNull | Some v \<Rightarrow> v)
             (JString [])) = Inr u"
  shows "entry_outcome number (JObject entry) =
     (if u \<noteq> ascii ''A'' then Inr (inactive_body number)
      else Inr (found_body number
             (case map_of entry (ascii ''enumeration_type'') of None \<Rightarrow> JString [] | Some t \<Rightarrow> t)
             (case map_of basic (ascii ''first_name'') of None \<Rightarrow> JNull | Some v \<Rightarrow> v)
             (case map_of basic (ascii ''last_name'') of None \<Rightarrow> JNull | Some v \<Rightarrow> v)))"
  using assms by (simp add: entry_outcome_def)

lemma status_shape_upper:
  "status_shape (map_of basic (ascii ''status'')) \<Longrightarrow>
     \<exists>u. str_upper (py_or (case map_of basic (ascii ''status'') of None \<Rightarrow> JNull | Some v \<Rightarrow> v) (JString [])) = Inr u"
  by (cases "map_of basic (ascii ''status'')" rule: status_shape.cases)
     (auto simp: py_or_def)

lemma status_shape_string:
  "status_shape s \<Longrightarrow>
     \<exists>st. py_or (case s of None \<Rightarrow> JNull | Some v \<Rightarrow> v) (JString []) = JString st"
  by (cases s rule: status_shape.cases) (auto simp: py_or_def)

lemma basic_shape_cases:
  "basic_shape b \<Longrightarrow>
     b = None \<or> (\<exists>basic. b = Some (JObject basic) \<and> status_shape (map_of basic (ascii ''status'')))"
  by (cases b rule: basic_shape.cases) auto

lemma entry_shape_cases:
  "entry_shape entry \<Longrightarrow> \<exists>kvs. entry = JObject kvs \<and> basic_shape (map_of kvs (ascii ''basic''))"
  by (cases entry) auto

lemma results_shape_cases:
  "results_shape r \<Longrightarrow>
     \<not> truthy (case r of None \<Rightarrow> JNull | Some v \<Rightarrow> v) \<or>
     (\<exists>entry rest. r = Some (JArray (entry # rest)) \<and> entry_shape entry)"
  by (cases r rule: results_shape.cases) auto

lemma entry_shape_result:
  assumes "entry_shape entry"
  shows "is_lookup_result number (entry_outcome number entry)"
proof -
  from entry_shape_cases [OF assms] obtain kvs where
    entry: "entry = JObject kvs" and b: "basic_shape (map_of kvs (ascii ''basic''))"
    by blast
  from basic_shape_cases [OF b] obtain basic where
    basic: "dict_get (JObject kvs) (ascii ''basic'') (JObject []) = Inr (JObject basic)"
    and st: "status_shape (map_of basic (ascii ''status''))"
    by auto
  from status_shape_upper [OF st] obtain u where
    "str_upper (py_or (case map_of basic (ascii ''status'') of None \<Rightarrow> JNull | Some v \<Rightarrow> v) (JString [])) = Inr u" ..
  then show ?thesis
    using entry by (auto simp: entry_outcome_object [OF basic] is_lookup_result_def)
qed

text \<open>On every document outside the expected shape a statement of the mapper raises.\<close>

lemma status_unshaped_raises:
  "\<not> status_shape s \<Longrightarrow>
     str_upper (py_or (case s of None \<Rightarrow> JNull | Some v \<Rightarrow> v) (JString [])) = Inl AttributeError"
  by (cases s rule: status_shape.cases) (auto simp: py_or_def)

lemma entry_unshaped_raises:
  assumes "\<not> entry_shape entry"
  shows "entry_outcome number entry = Inl AttributeError"
proof (cases entry)
  case (JObject kvs)
  then have nb: "\<not> basic_shape (map_of kvs (ascii ''basic''))"
    using assms by simp
  show ?thesis
  proof (cases "map_of kvs (ascii ''basic'')")
    case None
    then show ?thesis using nb by simp
  next
    case (Some b)
    show ?thesis
    proof (cases b)
      case (JObject basic)
      then have "\<not> status_shape (map_of basic (ascii ''status''))"
        using nb Some by simp
      from status_unshaped_raises [OF this] show ?thesis
        using \<open>entry = JObject kvs\<close> Some JObject by (simp add: entry_outcome_def)
    qed (use \<open>entry = JObject kvs\<close> Some in \<open>simp_all add: entry_outcome_def\<close>)
  qed
qed (simp_all add: entry_outcome_def)

lemma mapper_raises_on_other_shapes:
  assumes "\<not> expected_shape data"
  shows "\<exists>e. response_mapper number data = Inl e"
proof (cases data)
  case (JObject doc)
  then have nr: "\<not> results_shape (map_of doc (ascii ''results''))"
    using assms by simp
  then obtain r where r: "map_of doc (ascii ''results'') = Some r"
    by (cases "map_of doc (ascii ''results'')") auto
  show ?thesis
  proof (cases r)
    case (JArray xs)
    then obtain entry rest where xs: "xs = entry # rest"
      using nr r by (cases xs) auto
    then have "\<not> entry_shape entry"
      using nr r JArray by simp
    then show ?thesis
      using JObject r JArray xs by (simp add: mapper_first_entry entry_unshaped_raises)
  next
    case (JString s)
    then obtain c cs where "s = c # cs"
      using nr r by (cases s) auto
    then show ?thesis
      using JObject r JString by (simp add: response_mapper_def)
  qed (use nr r JObject in \<open>auto simp: response_mapper_def\<close>)
qed (simp_all add: response_mapper_def)

text \<open>
  One such document: \<^verbatim>\<open>{"results": [{"basic": null}]}\<close>. The default of
  \<^verbatim>\<open>entry.get("basic", {})\<close> stands in for an absent key only, not for a null value, while
  the \<^verbatim>\<open>or ""\<close> of the next line does stand in for a null status.
\<close>

lemma mapper_raises_on_null_basic:
  "response_mapper (ascii ''1234567890'')
     (JObject [(ascii ''results'', JArray [JObject [(ascii ''basic'', JNull)]])])
   = Inl AttributeError"
  by (simp add: response_mapper_def ascii_def)

text \<open>What a returned body tells about the document.\<close>

lemma entry_outcome_returns:
  assumes "entry_outcome number entry = Inr b"
  shows "\<exists>kvs basic u.
           entry = JObject kvs
         \<and> dict_get (JObject kvs) (ascii ''basic'') (JObject []) = Inr (JObject basic)
         \<and> str_upper (py_or (case map_of basic (ascii ''status'') of None \<Rightarrow> JNull | Some v \<Rightarrow> v)
               (JString [])) = Inr u
         \<and> b = (if u \<noteq> ascii ''A'' then inactive_body number
                else found_body number
                  (case map_of kvs (ascii ''enumeration_type'') of None \<Rightarrow> JString [] | Some t \<Rightarrow> t)
                  (case map_of basic (ascii ''first_name'') of None \<Rightarrow> JNull | Some v \<Rightarrow> v)
                  (case map_of basic (ascii ''last_name'') of None \<Rightarrow> JNull | Some v \<Rightarrow> v))"
proof -
  have "entry_shape entry"
    using assms entry_unshaped_raises [of entry number] by auto
  from entry_shape_cases [OF this] obtain kvs where
    entry: "entry = JObject kvs" and b: "basic_shape (map_of kvs (ascii ''basic''))"
    by blast
  from basic_shape_cases [OF b] obtain basic where
    basic: "dict_get (JObject kvs) (ascii ''basic'') (JObject []) = Inr (JObject basic)"
    and st: "status_shape (map_of basic (ascii ''status''))"
    by auto
  from status_shape_upper [OF st] obtain u where
    u: "str_upper (py_or (case map_of basic (ascii ''status'') of None \<Rightarrow> JNull | Some v \<Rightarrow> v) (JString [])) = Inr u" ..
  have "b = (if u \<noteq> ascii ''A'' then inactive_body number
                else found_body number
                  (case map_of kvs (ascii ''enumeration_type'') of None \<Rightarrow> JString [] | Some t \<Rightarrow> t)
                  (case map_of basic (ascii ''first_name'') of None \<Rightarrow> JNull | Some v \<Rightarrow> v)
                  (case map_of basic (ascii ''last_name'') of None \<Rightarrow> JNull | Some v \<Rightarrow> v))"
    using assms entry by (simp add: entry_outcome_object [OF basic u] split: if_splits)
  then show ?thesis
    using entry basic u by blast
qed

lemma mapper_returns:
  assumes "response_mapper number data = Inr b"
  shows "\<exists>doc. data = JObject doc
         \<and> (b = not_found_body number
            \<or> (\<exists>entry rest. map_of doc (ascii ''results'') = Some (JArray (entry # rest))
                 \<and> entry_outcome number entry = Inr b))"
proof -
  have "expected_shape data"
    using assms mapper_raises_on_other_shapes [of data number] by auto
  then obtain doc where
    data: "data = JObject doc" and r: "results_shape (map_of doc (ascii ''results''))"
    by (cases data) auto
  from results_shape_cases [OF r] show ?thesis
  proof
    assume "\<not> truthy (case map_of doc (ascii ''results'') of None \<Rightarrow> JNull | Some v \<Rightarrow> v)"
    then show ?thesis
      using data assms by (simp add: mapper_falsy_results)
  next
    assume "\<exists>entry rest. map_of doc (ascii ''results'') = Some (JArray (entry # rest)) \<and> entry_shape entry"
    then obtain entry rest where
      e: "map_of doc (ascii ''results'') = Some (JArray (entry # rest))"
      by blast
    then show ?thesis
      using data assms by (simp add: mapper_first_entry)
  qed
qed

lemma ok_of_bodies:
  "not_found_body number \<noteq> JObject kvs \<or> map_of kvs (ascii ''ok'') = Some (JBool False)"
  "inactive_body number \<noteq> JObject kvs \<or> map_of kvs (ascii ''ok'') = Some (JBool False)"
  by (auto simp: not_found_body_def inactive_body_def)

section \<open>The handler, path by path\<close>

lemma fetch_result:
  "fst (fetch reply params s) =
     (case reply of
        Inl cause \<Rightarrow> Inl (RequestError cause)
      | Inr response \<Rightarrow>
          if \<not> is_success response then Inl (HTTPStatusError (status_code response))
          else (case json_body response of None \<Rightarrow> Inl JSONDecodeError | Some d \<Rightarrow> Inr d))"
  by (simp add: fetch_def Let_def)

lemma fetch_state:
  "snd (fetch reply params s) =
     s\<lparr>next_client := Suc (next_client s),
       upstream_calls := upstream_calls s @ [(new_client s, NPPES_API, params)]\<rparr>"
  by (simp add: fetch_def Let_def new_client_def HTTP_TIMEOUT_def HTTP_LIMITS_def)

text \<open>Line 93: the number is refused and nothing else happens.\<close>

lemma check_npi_invalid:
  "\<not> py_isdigit number \<or> length number \<noteq> 10 \<Longrightarrow>
     check_npi reply number s = (Inl (HTTPException 400 (ascii ''Invalid NPI number format'')), s)"
  by (simp add: check_npi_def)

lemma check_npi_valid:
  assumes "py_isdigit number" and "length number = 10"
  shows "check_npi reply number s =
     (case fst (fetch reply (check_npi_params number) s) of
        Inl (RequestError e) \<Rightarrow>
          (Inl (HTTPException 500 (ascii ''NPPES API request failed'')),
           (snd (fetch reply (check_npi_params number) s))
             \<lparr>error_log := error_log s @
                [ascii ''Connection error while checking NPI '' @ number @ ascii '': '' @ e]\<rparr>)
      | Inl (HTTPStatusError code) \<Rightarrow>
          (Inl (HTTPException 500 (ascii ''NPPES API returned error'')),
           (snd (fetch reply (check_npi_params number) s))
             \<lparr>error_log := error_log s @
                [ascii ''NPPES API returned error for NPI '' @ number @ ascii '': '' @ decimal code]\<rparr>)
      | Inl e \<Rightarrow> (Inl e, snd (fetch reply (check_npi_params number) s))
      | Inr data \<Rightarrow> (response_mapper number data, snd (fetch reply (check_npi_params number) s)))"
  using assms
  by (simp add: check_npi_def check_npi_params_def Let_def fetch_state split_beta
        split: sum.splits py_exception.splits)

lemma check_npi_calls:
  assumes "py_isdigit number" and "length number = 10"
  shows "upstream_calls (snd (check_npi reply number s)) =
           upstream_calls s @ [(new_client s, NPPES_API, check_npi_params number)]
       \<and> next_client (snd (check_npi reply number s)) = Suc (next_client s)
       \<and> open_clients (snd (check_npi reply number s)) = open_clients s
       \<and> limiter (snd (check_npi reply number s)) = limiter s"
  by (simp add: check_npi_valid [OF assms] fetch_state split: sum.splits py_exception.splits)

lemma check_npi_parsed:
  assumes "py_isdigit number" and "length number = 10"
      and "is_success response" and "json_body response = Some data"
  shows "fst (check_npi (Inr response) number s) = response_mapper number data"
    and "error_log (snd (check_npi (Inr response) number s)) = error_log s"
  using assms(3,4) by (simp_all add: check_npi_valid [OF assms(1,2)] fetch_result fetch_state)

text \<open>The two \<^verbatim>\<open>except\<close> clauses: one line in the log, with the number and the cause, and a 500.\<close>

lemma check_npi_request_error:
  assumes "py_isdigit number" and "length number = 10"
  shows "fst (check_npi (Inl cause) number s) =
           Inl (HTTPException 500 (ascii ''NPPES API request failed''))"
    and "error_log (snd (check_npi (Inl cause) number s)) =
           error_log s @ [ascii ''Connection error while checking NPI '' @ number @ ascii '': '' @ cause]"
  by (simp_all add: check_npi_valid [OF assms] fetch_result fetch_state)

lemma check_npi_status_error:
  assumes "py_isdigit number" and "length number = 10" and "\<not> is_success response"
  shows "fst (check_npi (Inr response) number s) =
           Inl (HTTPException 500 (ascii ''NPPES API returned error''))"
    and "error_log (snd (check_npi (Inr response) number s)) =
           error_log s @ [ascii ''NPPES API returned error for NPI '' @ number @ ascii '': ''
                            @ decimal (status_code response)]"
  using assms(3) by (simp_all add: check_npi_valid [OF assms(1,2)] fetch_result fetch_state)

text \<open>A body that is not JSON: the exception of \<^verbatim>\<open>response.json()\<close> passes both clauses.\<close>

lemma check_npi_malformed_body:
  assumes "py_isdigit number" and "length number = 10"
      and "is_success response" and "json_body response = None"
  shows "fst (check_npi (Inr response) number s) = Inl JSONDecodeError"
    and "error_log (snd (check_npi (Inr response) number s)) = error_log s"
  using assms(3,4) by (simp_all add: check_npi_valid [OF assms(1,2)] fetch_result fetch_state)

text \<open>The route when the limiter allows the hit.\<close>

lemma get_check_npi_allowed:
  assumes "fst (hit check_npi_limit key now (limiter s))"
  shows "fst (get_check_npi hit key now reply number s) =
           respond (fst (check_npi reply number
              (s\<lparr>limiter := snd (hit check_npi_limit key now (limiter s))\<rparr>)))"
  using assms by (simp add: get_check_npi_def limited_check_npi_def split_beta Let_def)

lemma get_check_npi_parsed:
  assumes "fst (hit check_npi_limit key now (limiter s))"
      and "py_isdigit number" and "length number = 10"
      and "is_success response" and "json_body response = Some data"
  shows "fst (get_check_npi hit key now (Inr response) number s) =
           respond (response_mapper number data)"
  using assms(1)
  by (simp add: get_check_npi_def limited_check_npi_def split_beta Let_def
        check_npi_parsed(1) [OF assms(2-5)])

text \<open>The fixed-window limiter refuses a key that already has ten hits in its running window.\<close>

lemma fixed_window_over_limit:
  assumes "storage key = Some (n, expiry)" and "now < expiry" and "10 \<le> n"
  shows "\<not> fst (fixed_window_hit check_npi_limit key now storage)"
  using assms by (simp add: fixed_window_hit_def check_npi_limit_def)

text \<open>It allows the first hit of a key.\<close>

lemma fixed_window_first_hit:
  "fst (fixed_window_hit check_npi_limit key now Map.empty)"
  by (simp add: fixed_window_hit_def check_npi_limit_def)

section \<open>The claims\<close>

subsection \<open>C1: validation of the number\<close>

text \<open>
  Claim C1 says that every string that is not exactly ten ASCII digits is answered with 400
  and no upstream call, and that every string of ten ASCII digits passes validation. Line 92
  tests \<^verbatim>\<open>number.isdigit()\<close>, which also holds for digits outside ASCII. The theorem runs the
  handler on the ten ARABIC-INDIC digits U+0660 to U+0669: the number passes validation, the
  registry is queried with it, and the registry's empty answer comes back as not found.
\<close>

theorem check_npi_accepts_non_ascii_digits:
  "fst (check_npi (Inr \<lparr>status_code = 200, json_body = Some (JObject [])\<rparr>)
          [1632, 1633, 1634, 1635, 1636, 1637, 1638, 1639, 1640, 1641] server0)
     = Inr (not_found_body [1632, 1633, 1634, 1635, 1636, 1637, 1638, 1639, 1640, 1641])
   \<and> map (\<lambda>(client, url, params). params)
        (upstream_calls
          (snd (check_npi (Inr \<lparr>status_code = 200, json_body = Some (JObject [])\<rparr>)
                  [1632, 1633, 1634, 1635, 1636, 1637, 1638, 1639, 1640, 1641] server0)))
     = [[(ascii ''version'', ascii ''2.1''),
         (ascii ''number'', [1632, 1633, 1634, 1635, 1636, 1637, 1638, 1639, 1640, 1641])]]"
proof -
  have v: "py_isdigit [1632, 1633, 1634, 1635, 1636, 1637, 1638, 1639, 1640, 1641]"
    by (rule isdigit_arabic_indic)
  have l: "length [1632, 1633, 1634, 1635, 1636, 1637, 1638, 1639, 1640, 1641 :: nat] = 10"
    by simp
  have ok: "is_success \<lparr>status_code = 200, json_body = Some (JObject [])\<rparr>"
    by (simp add: is_success_def)
  show ?thesis
    using check_npi_parsed(1) [OF v l ok, of "JObject []" server0] check_npi_calls [OF v l, of "Inr \<lparr>status_code = 200, json_body = Some (JObject [])\<rparr>" server0]
    by (simp add: response_mapper_def server0_def check_npi_params_def)
qed

theorem check_npi_accepts_non_ascii_digits_witness:
  "fst (check_npi (Inr \<lparr>status_code = 200, json_body = Some (JObject [])\<rparr>)
          [1632, 1633, 1634, 1635, 1636, 1637, 1638, 1639, 1640, 1641] server0)
     \<noteq> Inl (HTTPException 400 (ascii ''Invalid NPI number format''))
   \<and> upstream_calls
        (snd (check_npi (Inr \<lparr>status_code = 200, json_body = Some (JObject [])\<rparr>)
                [1632, 1633, 1634, 1635, 1636, 1637, 1638, 1639, 1640, 1641] server0)) \<noteq> []"
  using check_npi_accepts_non_ascii_digits by auto

text \<open>The rest of the claim holds: ten ASCII digits pass, and what line 92 refuses gets the 400 alone.\<close>

lemma validation_accepts_ascii_digits:
  assumes "length number = 10" and "list_all (\<lambda>c. 48 \<le> c \<and> c \<le> 57) number"
  shows "\<not> (\<not> py_isdigit number \<or> length number \<noteq> 10)"
proof -
  from assms(1) have "number \<noteq> []"
    by auto
  then have "py_isdigit number"
    using assms(2) by (rule py_isdigit_ascii)
  with assms(1) show ?thesis
    by simp
qed

subsection \<open>C2: the status is compared without regard to case\<close>

text \<open>
  Claim C2, as amended: for a document with a non-empty results array whose first element
  is an object, with basic absent or an object and status absent, not truthy or a string,
  the mapper compares the status, taken as the empty string when it is absent or not
  truthy, with \<^verbatim>\<open>"A"\<close> after upper-casing it. If the upper-cased status is not \<^verbatim>\<open>"A"\<close> the
  result is the inactive body with the number; if the status is \<^verbatim>\<open>"A"\<close> or \<^verbatim>\<open>"a"\<close> (or
  any string that upper-cases to \<^verbatim>\<open>"A"\<close>) the result is the found body, with \<^verbatim>\<open>type\<close>,
  \<^verbatim>\<open>first_name\<close> and \<^verbatim>\<open>last_name\<close> read from the first element. The claim as it stands
  covers every document with a non-empty results array; the mapper tests no types, and the
  counterexample below is such a document on which it raises.
\<close>

theorem status_compared_case_insensitively:
  assumes results: "map_of doc (ascii ''results'') = Some (JArray (entry # rest))"
      and shape: "entry_shape entry"
  shows "\<exists>ekvs basic st.
           entry = JObject ekvs
         \<and> dict_get (JObject ekvs) (ascii ''basic'') (JObject []) = Inr (JObject basic)
         \<and> py_or (case map_of basic (ascii ''status'') of None \<Rightarrow> JNull | Some v \<Rightarrow> v)
               (JString []) = JString st
         \<and> (py_upper st \<noteq> ascii ''A'' \<longrightarrow>
               response_mapper number (JObject doc) =
                 Inr (JObject [(ascii ''ok'', JBool False),
                               (ascii ''reason'', JString (ascii ''inactive'')),
                               (ascii ''number'', JString number)]))
         \<and> (st = ascii ''A'' \<or> st = ascii ''a'' \<or> py_upper st = ascii ''A'' \<longrightarrow>
               response_mapper number (JObject doc) =
                 Inr (JObject [(ascii ''ok'', JBool True), (ascii ''number'', JString number),
                               (ascii ''type'',
                                  case map_of ekvs (ascii ''enumeration_type'') of
                                    None \<Rightarrow> JString [] | Some t \<Rightarrow> t),
                               (ascii ''first_name'',
                                  case map_of basic (ascii ''first_name'') of
                                    None \<Rightarrow> JNull | Some v \<Rightarrow> v),
                               (ascii ''last_name'',
                                  case map_of basic (ascii ''last_name'') of
                                    None \<Rightarrow> JNull | Some v \<Rightarrow> v)]))"
proof -
  from entry_shape_cases [OF shape] obtain ekvs where
    entry: "entry = JObject ekvs" and b: "basic_shape (map_of ekvs (ascii ''basic''))"
    by blast
  from basic_shape_cases [OF b] obtain basic where
    basic: "dict_get (JObject ekvs) (ascii ''basic'') (JObject []) = Inr (JObject basic)"
    and s: "status_shape (map_of basic (ascii ''status''))"
    by auto
  from status_shape_string [OF s] obtain st where
    st: "py_or (case map_of basic (ascii ''status'') of None \<Rightarrow> JNull | Some v \<Rightarrow> v)
           (JString []) = JString st" ..
  then have u: "str_upper (py_or (case map_of basic (ascii ''status'') of None \<Rightarrow> JNull | Some v \<Rightarrow> v)
           (JString [])) = Inr (py_upper st)"
    by simp
  have up: "st = ascii ''A'' \<or> st = ascii ''a'' \<Longrightarrow> py_upper st = ascii ''A''"
    using upper_A upper_a by auto
  have m: "response_mapper number (JObject doc) =
      (if py_upper st \<noteq> ascii ''A'' then Inr (inactive_body number)
       else Inr (found_body number
              (case map_of ekvs (ascii ''enumeration_type'') of None \<Rightarrow> JString [] | Some t \<Rightarrow> t)
              (case map_of basic (ascii ''first_name'') of None \<Rightarrow> JNull | Some v \<Rightarrow> v)
              (case map_of basic (ascii ''last_name'') of None \<Rightarrow> JNull | Some v \<Rightarrow> v)))"
    using entry by (simp add: mapper_first_entry [OF results] entry_outcome_object [OF basic u])
  have "(py_upper st \<noteq> ascii ''A'' \<longrightarrow>
               response_mapper number (JObject doc) =
                 Inr (JObject [(ascii ''ok'', JBool False),
                               (ascii ''reason'', JString (ascii ''inactive'')),
                               (ascii ''number'', JString number)]))
         \<and> (st = ascii ''A'' \<or> st = ascii ''a'' \<or> py_upper st = ascii ''A'' \<longrightarrow>
               response_mapper number (JObject doc) =
                 Inr (JObject [(ascii ''ok'', JBool True), (ascii ''number'', JString number),
                               (ascii ''type'',
                                  case map_of ekvs (ascii ''enumeration_type'') of
                                    None \<Rightarrow> JString [] | Some t \<Rightarrow> t),
                               (ascii ''first_name'',
                                  case map_of basic (ascii ''first_name'') of
                                    None \<Rightarrow> JNull | Some v \<Rightarrow> v),
                               (ascii ''last_name'',
                                  case map_of basic (ascii ''last_name'') of
                                    None \<Rightarrow> JNull | Some v \<Rightarrow> v)]))"
    using m up by (auto simp: inactive_body_def found_body_def)
  with entry basic st show ?thesis
    by blast
qed

theorem status_compared_case_insensitively_witness:
  "entry_shape (JObject [(ascii ''enumeration_type'', JString (ascii ''NPI-1'')),
                         (ascii ''basic'', JObject [(ascii ''first_name'', JString (ascii ''JANE'')),
                                                    (ascii ''status'', JString (ascii ''a''))])])
   \<and> response_mapper (ascii ''1234567890'')
     (JObject [(ascii ''results'',
        JArray [JObject [(ascii ''enumeration_type'', JString (ascii ''NPI-1'')),
                         (ascii ''basic'', JObject [(ascii ''first_name'', JString (ascii ''JANE'')),
                                                    (ascii ''status'', JString (ascii ''a''))])]])])
   = Inr (JObject [(ascii ''ok'', JBool True), (ascii ''number'', JString (ascii ''1234567890'')),
                   (ascii ''type'', JString (ascii ''NPI-1'')),
                   (ascii ''first_name'', JString (ascii ''JANE'')),
                   (ascii ''last_name'', JNull)])
   \<and> entry_shape (JObject [(ascii ''basic'', JObject [(ascii ''status'', JInt 0)])])
   \<and> response_mapper (ascii ''1234567890'')
     (JObject [(ascii ''results'',
        JArray [JObject [(ascii ''basic'', JObject [(ascii ''status'', JInt 0)])]])])
   = Inr (JObject [(ascii ''ok'', JBool False), (ascii ''reason'', JString (ascii ''inactive'')),
                   (ascii ''number'', JString (ascii ''1234567890''))])"
proof -
  let ?e1 = "JObject [(ascii ''enumeration_type'', JString (ascii ''NPI-1'')),
                      (ascii ''basic'', JObject [(ascii ''first_name'', JString (ascii ''JANE'')),
                                                 (ascii ''status'', JString (ascii ''a''))])]"
  let ?e2 = "JObject [(ascii ''basic'', JObject [(ascii ''status'', JInt 0)])]"
  have r1: "map_of [(ascii ''results'', JArray [?e1])] (ascii ''results'') = Some (JArray (?e1 # []))"
    by simp
  have r2: "map_of [(ascii ''results'', JArray [?e2])] (ascii ''results'') = Some (JArray (?e2 # []))"
    by simp
  have s1: "entry_shape ?e1"
    by (simp add: ascii_def)
  have s2: "entry_shape ?e2"
    by (simp add: ascii_def)
  have a: "response_mapper (ascii ''1234567890'') (JObject [(ascii ''results'', JArray [?e1])])
      = Inr (JObject [(ascii ''ok'', JBool True), (ascii ''number'', JString (ascii ''1234567890'')),
                   (ascii ''type'', JString (ascii ''NPI-1'')),
                   (ascii ''first_name'', JString (ascii ''JANE'')),
                   (ascii ''last_name'', JNull)])"
    using status_compared_case_insensitively [OF r1 s1, of "ascii ''1234567890''"]
    by (auto simp: ascii_def py_or_def)
  have b: "response_mapper (ascii ''1234567890'') (JObject [(ascii ''results'', JArray [?e2])])
      = Inr (JObject [(ascii ''ok'', JBool False), (ascii ''reason'', JString (ascii ''inactive'')),
                   (ascii ''number'', JString (ascii ''1234567890''))])"
    using status_compared_case_insensitively [OF r2 s2, of "ascii ''1234567890''"]
    by (auto simp: ascii_def py_or_def upper_empty)
  from s1 a s2 b show ?thesis
    by simp
qed

text \<open>
  The document \<^verbatim>\<open>{"results": [{"basic": {"status": true}}]}\<close>: the status is a bool,
  \<^verbatim>\<open>(True or "")\<close> is \<^verbatim>\<open>True\<close>, and \<^verbatim>\<open>.upper()\<close> raises \<^verbatim>\<open>AttributeError\<close>; the result is
  neither the inactive nor the found body.
\<close>

theorem mapper_raises_on_boolean_status:
  "response_mapper (ascii ''1234567890'')
     (JObject [(ascii ''results'',
        JArray [JObject [(ascii ''basic'', JObject [(ascii ''status'', JBool True)])]])])
   = Inl AttributeError"
  by (simp add: response_mapper_def py_or_def ascii_def)

subsection \<open>C3: no results\<close>

text \<open>
  Claim C3: for a document in which the results key is absent or its value is the empty
  array, the mapper produces the not-found body
  \<^verbatim>\<open>{"ok": false, "reason": "not_found", "number": number}\<close>, and a request with a valid
  number that the limiter allows and the registry answers with such a document gets that
  body with status 200.
\<close>

theorem results_absent_or_empty_is_not_found:
  assumes "map_of doc (ascii ''results'') = None \<or> map_of doc (ascii ''results'') = Some (JArray [])"
  shows "response_mapper number (JObject doc) =
           Inr (JObject [(ascii ''ok'', JBool False), (ascii ''reason'', JString (ascii ''not_found'')),
                         (ascii ''number'', JString number)])
       \<and> (fst (hit check_npi_limit key now (limiter s)) \<and> py_isdigit number \<and> length number = 10
            \<and> is_success response \<and> json_body response = Some (JObject doc) \<longrightarrow>
          fst (get_check_npi hit key now (Inr response) number s) =
           \<lparr>status = 200,
            body = Json (JObject [(ascii ''ok'', JBool False),
                                  (ascii ''reason'', JString (ascii ''not_found'')),
                                  (ascii ''number'', JString number)])\<rparr>)"
proof -
  have "\<not> truthy (case map_of doc (ascii ''results'') of None \<Rightarrow> JNull | Some v \<Rightarrow> v)"
    using assms by auto
  then have m: "response_mapper number (JObject doc) = Inr (not_found_body number)"
    by (rule mapper_falsy_results)
  show ?thesis
    using m by (auto simp: get_check_npi_parsed not_found_body_def)
qed

theorem results_absent_or_empty_is_not_found_witness:
  "response_mapper (ascii ''1234567890'')
      (JObject [(ascii ''result_count'', JInt 0), (ascii ''results'', JArray [])]) =
     Inr (JObject [(ascii ''ok'', JBool False), (ascii ''reason'', JString (ascii ''not_found'')),
                   (ascii ''number'', JString (ascii ''1234567890''))])
   \<and> fst (get_check_npi fixed_window_hit (ascii ''203.0.113.7'') 30
        (Inr \<lparr>status_code = 200,
              json_body = Some (JObject [(ascii ''result_count'', JInt 0),
                                         (ascii ''results'', JArray [])])\<rparr>)
        (ascii ''1234567890'') server0) =
       \<lparr>status = 200,
        body = Json (JObject [(ascii ''ok'', JBool False),
                              (ascii ''reason'', JString (ascii ''not_found'')),
                              (ascii ''number'', JString (ascii ''1234567890''))])\<rparr>"
proof -
  have r: "map_of [(ascii ''result_count'', JInt 0), (ascii ''results'', JArray [])] (ascii ''results'')
             = None
         \<or> map_of [(ascii ''result_count'', JInt 0), (ascii ''results'', JArray [])] (ascii ''results'')
             = Some (JArray [])"
    by (simp add: ascii_def)
  have a: "fst (fixed_window_hit check_npi_limit (ascii ''203.0.113.7'') 30 (limiter server0))"
    by (simp add: server0_def fixed_window_first_hit)
  have ok: "is_success \<lparr>status_code = 200,
              json_body = Some (JObject [(ascii ''result_count'', JInt 0),
                                         (ascii ''results'', JArray [])])\<rparr>"
    by (simp add: is_success_def)
  show ?thesis
    using results_absent_or_empty_is_not_found
            [OF r, where number = "ascii ''1234567890''" and hit = fixed_window_hit
               and key = "ascii ''203.0.113.7''" and now = 30 and s = server0
               and response = "\<lparr>status_code = 200,
                  json_body = Some (JObject [(ascii ''result_count'', JInt 0),
                                             (ascii ''results'', JArray [])])\<rparr>"]
          a ok isdigit_1234567890 length_1234567890
    by simp
qed

subsection \<open>C4: a body that is not JSON\<close>

text \<open>
  Claim C4 says that a reply whose body is not JSON is handled as the other upstream
  failures are: caught, logged with the number and the cause, and turned into the generic
  500. The \<^verbatim>\<open>try\<close> of line 97 does cover \<^verbatim>\<open>response.json()\<close>, but its two \<^verbatim>\<open>except\<close> clauses
  name \<^verbatim>\<open>httpx.RequestError\<close> and \<^verbatim>\<open>httpx.HTTPStatusError\<close> only. The theorem runs the handler
  on a 200 reply with such a body: \<^verbatim>\<open>JSONDecodeError\<close> leaves the handler, nothing is written
  to the log, and the answer is the server's own plain 500 instead of the handler's
  \<^verbatim>\<open>HTTPException\<close>.
\<close>

theorem malformed_body_is_not_caught:
  "fst (check_npi (Inr \<lparr>status_code = 200, json_body = None\<rparr>) (ascii ''1234567890'') server0)
     = Inl JSONDecodeError
   \<and> error_log (snd (check_npi (Inr \<lparr>status_code = 200, json_body = None\<rparr>)
                        (ascii ''1234567890'') server0)) = []
   \<and> respond (fst (check_npi (Inr \<lparr>status_code = 200, json_body = None\<rparr>)
                        (ascii ''1234567890'') server0))
     = \<lparr>status = 500, body = PlainText (ascii ''Internal Server Error'')\<rparr>"
proof -
  have ok: "is_success \<lparr>status_code = 200, json_body = None\<rparr>"
    by (simp add: is_success_def)
  show ?thesis
    using check_npi_malformed_body [OF isdigit_1234567890 length_1234567890 ok, of server0]
    by (simp add: server0_def)
qed

theorem malformed_body_is_not_caught_witness:
  "fst (check_npi (Inr \<lparr>status_code = 200, json_body = None\<rparr>) (ascii ''1234567890'') server0)
     \<noteq> Inl (HTTPException 500 (ascii ''NPPES API returned error''))
   \<and> fst (check_npi (Inr \<lparr>status_code = 200, json_body = None\<rparr>) (ascii ''1234567890'') server0)
     \<noteq> Inl (HTTPException 500 (ascii ''NPPES API request failed''))"
  using malformed_body_is_not_caught by simp

subsection \<open>C5: what a found result carries\<close>

text \<open>
  Claim C5: the mapper returns a body with \<^verbatim>\<open>ok\<close> true exactly when the first element of the
  results is an object whose status upper-cases to \<^verbatim>\<open>"A"\<close>, and that body then carries
  \<^verbatim>\<open>type\<close>, the element's \<^verbatim>\<open>enumeration_type\<close> or the empty string when the key is absent,
  and \<^verbatim>\<open>first_name\<close> and \<^verbatim>\<open>last_name\<close>, the values under basic or null when the key is
  absent. Absent names or an absent type never keep the result from being found.
\<close>

theorem found_carries_type_and_names:
  "(response_mapper number data = Inr (JObject kvs)
      \<and> map_of kvs (ascii ''ok'') = Some (JBool True))
   \<longleftrightarrow>
   (\<exists>doc entry rest basic.
       data = JObject doc
     \<and> map_of doc (ascii ''results'') = Some (JArray (JObject entry # rest))
     \<and> dict_get (JObject entry) (ascii ''basic'') (JObject []) = Inr (JObject basic)
     \<and> str_upper (py_or (case map_of basic (ascii ''status'') of None \<Rightarrow> JNull | Some v \<Rightarrow> v)
           (JString [])) = Inr (ascii ''A'')
     \<and> kvs =
         [(ascii ''ok'', JBool True), (ascii ''number'', JString number),
          (ascii ''type'',
             case map_of entry (ascii ''enumeration_type'') of None \<Rightarrow> JString [] | Some t \<Rightarrow> t),
          (ascii ''first_name'',
             case map_of basic (ascii ''first_name'') of None \<Rightarrow> JNull | Some v \<Rightarrow> v),
          (ascii ''last_name'',
             case map_of basic (ascii ''last_name'') of None \<Rightarrow> JNull | Some v \<Rightarrow> v)])"
  (is "?found \<longleftrightarrow> ?shape")
proof
  assume f: ?found
  then have ret: "response_mapper number data = Inr (JObject kvs)"
    and ok: "map_of kvs (ascii ''ok'') = Some (JBool True)"
    by simp_all
  from mapper_returns [OF ret] obtain doc where
    data: "data = JObject doc"
    and alt: "JObject kvs = not_found_body number
            \<or> (\<exists>entry rest. map_of doc (ascii ''results'') = Some (JArray (entry # rest))
                 \<and> entry_outcome number entry = Inr (JObject kvs))"
    by blast
  have "JObject kvs \<noteq> not_found_body number"
    using ok ok_of_bodies(1) [of number kvs] by auto
  with alt obtain entry rest where
    results: "map_of doc (ascii ''results'') = Some (JArray (entry # rest))"
    and out: "entry_outcome number entry = Inr (JObject kvs)"
    by blast
  from entry_outcome_returns [OF out] obtain ekvs basic u where
    entry: "entry = JObject ekvs"
    and basic: "dict_get (JObject ekvs) (ascii ''basic'') (JObject []) = Inr (JObject basic)"
    and u: "str_upper (py_or (case map_of basic (ascii ''status'') of None \<Rightarrow> JNull | Some v \<Rightarrow> v)
               (JString [])) = Inr u"
    and b: "JObject kvs = (if u \<noteq> ascii ''A'' then inactive_body number
                else found_body number
                  (case map_of ekvs (ascii ''enumeration_type'') of None \<Rightarrow> JString [] | Some t \<Rightarrow> t)
                  (case map_of basic (ascii ''first_name'') of None \<Rightarrow> JNull | Some v \<Rightarrow> v)
                  (case map_of basic (ascii ''last_name'') of None \<Rightarrow> JNull | Some v \<Rightarrow> v))"
    by blast
  have "JObject kvs \<noteq> inactive_body number"
    using ok ok_of_bodies(2) [of number kvs] by auto
  with b have "u = ascii ''A''"
    by (auto split: if_splits)
  with b have "kvs =
         [(ascii ''ok'', JBool True), (ascii ''number'', JString number),
          (ascii ''type'',
             case map_of ekvs (ascii ''enumeration_type'') of None \<Rightarrow> JString [] | Some t \<Rightarrow> t),
          (ascii ''first_name'',
             case map_of basic (ascii ''first_name'') of None \<Rightarrow> JNull | Some v \<Rightarrow> v),
          (ascii ''last_name'',
             case map_of basic (ascii ''last_name'') of None \<Rightarrow> JNull | Some v \<Rightarrow> v)]"
    by (simp add: found_body_def)
  with data results entry basic u \<open>u = ascii ''A''\<close> show ?shape
    by blast
next
  assume ?shape
  then obtain doc entry rest basic where
    data: "data = JObject doc"
    and results: "map_of doc (ascii ''results'') = Some (JArray (JObject entry # rest))"
    and basic: "dict_get (JObject entry) (ascii ''basic'') (JObject []) = Inr (JObject basic)"
    and u: "str_upper (py_or (case map_of basic (ascii ''status'') of None \<Rightarrow> JNull | Some v \<Rightarrow> v)
           (JString [])) = Inr (ascii ''A'')"
    and kvs: "kvs =
         [(ascii ''ok'', JBool True), (ascii ''number'', JString number),
          (ascii ''type'',
             case map_of entry (ascii ''enumeration_type'') of None \<Rightarrow> JString [] | Some t \<Rightarrow> t),
          (ascii ''first_name'',
             case map_of basic (ascii ''first_name'') of None \<Rightarrow> JNull | Some v \<Rightarrow> v),
          (ascii ''last_name'',
             case map_of basic (ascii ''last_name'') of None \<Rightarrow> JNull | Some v \<Rightarrow> v)]"
    by blast
  show ?found
    using data kvs
    by (simp add: mapper_first_entry [OF results] entry_outcome_object [OF basic u] found_body_def)
qed

theorem found_carries_type_and_names_witness:
  "response_mapper (ascii ''1234567890'')
     (JObject [(ascii ''results'',
        JArray [JObject [(ascii ''basic'', JObject [(ascii ''status'', JString (ascii ''A''))])]])])
   = Inr (JObject [(ascii ''ok'', JBool True), (ascii ''number'', JString (ascii ''1234567890'')),
                   (ascii ''type'', JString []), (ascii ''first_name'', JNull),
                   (ascii ''last_name'', JNull)])"
proof -
  have "\<exists>doc entry rest basic.
       JObject [(ascii ''results'',
         JArray [JObject [(ascii ''basic'', JObject [(ascii ''status'', JString (ascii ''A''))])]])]
         = JObject doc
     \<and> map_of doc (ascii ''results'') = Some (JArray (JObject entry # rest))
     \<and> dict_get (JObject entry) (ascii ''basic'') (JObject []) = Inr (JObject basic)
     \<and> str_upper (py_or (case map_of basic (ascii ''status'') of None \<Rightarrow> JNull | Some v \<Rightarrow> v)
           (JString [])) = Inr (ascii ''A'')
     \<and> [(ascii ''ok'', JBool True), (ascii ''number'', JString (ascii ''1234567890'')),
                   (ascii ''type'', JString []), (ascii ''first_name'', JNull),
                   (ascii ''last_name'', JNull)] =
         [(ascii ''ok'', JBool True), (ascii ''number'', JString (ascii ''1234567890'')),
          (ascii ''type'',
             case map_of entry (ascii ''enumeration_type'') of None \<Rightarrow> JString [] | Some t \<Rightarrow> t),
          (ascii ''first_name'',
             case map_of basic (ascii ''first_name'') of None \<Rightarrow> JNull | Some v \<Rightarrow> v),
          (ascii ''last_name'',
             case map_of basic (ascii ''last_name'') of None \<Rightarrow> JNull | Some v \<Rightarrow> v)]"
    by (simp add: ascii_def py_or_def upper_65)
  then show ?thesis
    using found_carries_type_and_names
            [of "ascii ''1234567890''"
                "JObject [(ascii ''results'',
                   JArray [JObject [(ascii ''basic'', JObject [(ascii ''status'', JString (ascii ''A''))])]])]"
                "[(ascii ''ok'', JBool True), (ascii ''number'', JString (ascii ''1234567890'')),
                   (ascii ''type'', JString []), (ascii ''first_name'', JNull),
                   (ascii ''last_name'', JNull)]"]
    by blast
qed

subsection \<open>C6: the rate limit\<close>

text \<open>
  Claim C6: when the limiter, asked with the limit of 10 per 60 seconds, refuses the hit of
  the client's key, the answer is status 429 with the body
  \<^verbatim>\<open>{"ok": false, "reason": "too_many_requests", "detail": "Rate limit exceeded"}\<close>, whatever
  the number is (so validation has not run), and no client is constructed, no upstream call
  is issued and nothing is logged. This holds for every limiter; the instance after it
  takes the fixed-window limiter and a key with ten hits in its window.
\<close>

theorem rate_limit_short_circuits:
  assumes "\<not> fst (hit check_npi_limit key now (limiter s))"
  shows "fst (get_check_npi hit key now reply number s) =
           \<lparr>status = 429,
            body = Json (JObject [(ascii ''ok'', JBool False),
                                  (ascii ''reason'', JString (ascii ''too_many_requests'')),
                                  (ascii ''detail'', JString (ascii ''Rate limit exceeded''))])\<rparr>
       \<and> upstream_calls (snd (get_check_npi hit key now reply number s)) = upstream_calls s
       \<and> next_client (snd (get_check_npi hit key now reply number s)) = next_client s
       \<and> error_log (snd (get_check_npi hit key now reply number s)) = error_log s
       \<and> limiter (snd (get_check_npi hit key now reply number s)) =
           snd (hit check_npi_limit key now (limiter s))"
  using assms
  by (simp add: get_check_npi_def limited_check_npi_def rate_limit_handler_def split_beta Let_def)

theorem rate_limit_short_circuits_witness:
  "\<not> fst (fixed_window_hit check_npi_limit (ascii ''203.0.113.7'') 30
          (limiter (server0\<lparr>limiter := [ascii ''203.0.113.7'' \<mapsto> (10, 60)]\<rparr>)))
   \<and> fst (get_check_npi fixed_window_hit (ascii ''203.0.113.7'') 30
            (Inr \<lparr>status_code = 200, json_body = Some (JObject [])\<rparr>) (ascii ''12ab'')
            (server0\<lparr>limiter := [ascii ''203.0.113.7'' \<mapsto> (10, 60)]\<rparr>)) =
           \<lparr>status = 429,
            body = Json (JObject [(ascii ''ok'', JBool False),
                                  (ascii ''reason'', JString (ascii ''too_many_requests'')),
                                  (ascii ''detail'', JString (ascii ''Rate limit exceeded''))])\<rparr>
   \<and> upstream_calls (snd (get_check_npi fixed_window_hit (ascii ''203.0.113.7'') 30
            (Inr \<lparr>status_code = 200, json_body = Some (JObject [])\<rparr>) (ascii ''12ab'')
            (server0\<lparr>limiter := [ascii ''203.0.113.7'' \<mapsto> (10, 60)]\<rparr>))) = []"
proof -
  have h: "\<not> fst (fixed_window_hit check_npi_limit (ascii ''203.0.113.7'') 30
          (limiter (server0\<lparr>limiter := [ascii ''203.0.113.7'' \<mapsto> (10, 60)]\<rparr>)))"
    by (rule fixed_window_over_limit [where n = 10 and expiry = 60]) simp_all
  show ?thesis
    using h
      rate_limit_short_circuits
        [where hit = fixed_window_hit and key = "ascii ''203.0.113.7''" and now = 30
           and s = "server0\<lparr>limiter := [ascii ''203.0.113.7'' \<mapsto> (10, 60)]\<rparr>"
           and reply = "Inr \<lparr>status_code = 200, json_body = Some (JObject [])\<rparr>"
           and number = "ascii ''12ab''"]
    by (simp add: server0_def)
qed

subsection \<open>C7: only the first result\<close>

text \<open>
  Claim C7: two documents whose results are non-empty arrays with the same first element
  get the same result from the mapper, a body or an exception, whatever else the arrays
  and the documents hold.
\<close>

theorem only_first_result_considered:
  assumes "map_of doc1 (ascii ''results'') = Some (JArray (entry # rest1))"
      and "map_of doc2 (ascii ''results'') = Some (JArray (entry # rest2))"
  shows "response_mapper number (JObject doc1) = response_mapper number (JObject doc2)"
  by (simp add: mapper_first_entry [OF assms(1)] mapper_first_entry [OF assms(2)])

theorem only_first_result_considered_witness:
  "response_mapper (ascii ''1234567890'')
     (JObject [(ascii ''results'',
        JArray [JObject [(ascii ''basic'', JObject [(ascii ''status'', JString (ascii ''A''))])],
                JObject [(ascii ''basic'', JObject [(ascii ''status'', JString (ascii ''I''))])]])])
   = response_mapper (ascii ''1234567890'')
     (JObject [(ascii ''result_count'', JInt 1),
               (ascii ''results'',
        JArray [JObject [(ascii ''basic'', JObject [(ascii ''status'', JString (ascii ''A''))])]])])"
  using only_first_result_considered
          [of "[(ascii ''results'',
                 JArray [JObject [(ascii ''basic'', JObject [(ascii ''status'', JString (ascii ''A''))])],
                         JObject [(ascii ''basic'', JObject [(ascii ''status'', JString (ascii ''I''))])]])]"
              "JObject [(ascii ''basic'', JObject [(ascii ''status'', JString (ascii ''A''))])]"
              "[JObject [(ascii ''basic'', JObject [(ascii ''status'', JString (ascii ''I''))])]]"
              "[(ascii ''result_count'', JInt 1),
                (ascii ''results'',
                 JArray [JObject [(ascii ''basic'', JObject [(ascii ''status'', JString (ascii ''A''))])]])]"
              "[]" "ascii ''1234567890''"]
  by (simp add: ascii_def)

subsection \<open>C8: the mapper and unexpected documents\<close>

text \<open>
  Claim C8, as amended: on every document of the expected shape, whatever other keys it has
  and whichever of results, basic, status, enumeration_type and the names it lacks, the
  mapper produces one of the three lookup results. The claim as it stands covers every
  parsed document; the mapper tests no types, and the counterexample below is a document
  on which it raises.
\<close>

theorem mapper_total_on_expected_shape:
  assumes "expected_shape data"
  shows "is_lookup_result number (response_mapper number data)"
proof -
  from assms obtain doc where
    data: "data = JObject doc" and r: "results_shape (map_of doc (ascii ''results''))"
    by (cases data) auto
  from results_shape_cases [OF r] show ?thesis
  proof
    assume "\<not> truthy (case map_of doc (ascii ''results'') of None \<Rightarrow> JNull | Some v \<Rightarrow> v)"
    then show ?thesis
      using data by (simp add: mapper_falsy_results is_lookup_result_def)
  next
    assume "\<exists>entry rest. map_of doc (ascii ''results'') = Some (JArray (entry # rest)) \<and> entry_shape entry"
    then obtain entry rest where
      "map_of doc (ascii ''results'') = Some (JArray (entry # rest))" and "entry_shape entry"
      by blast
    then show ?thesis
      using data by (simp add: mapper_first_entry entry_shape_result)
  qed
qed

theorem mapper_total_on_expected_shape_witness:
  "expected_shape
     (JObject [(ascii ''result_count'', JInt 1),
               (ascii ''results'',
                  JArray [JObject [(ascii ''number'', JString (ascii ''1234567890'')),
                                   (ascii ''basic'', JObject [(ascii ''status'', JString (ascii ''A''))])]])])
   \<and> is_lookup_result (ascii ''1234567890'')
       (response_mapper (ascii ''1234567890'')
         (JObject [(ascii ''result_count'', JInt 1),
               (ascii ''results'',
                  JArray [JObject [(ascii ''number'', JString (ascii ''1234567890'')),
                                   (ascii ''basic'', JObject [(ascii ''status'', JString (ascii ''A''))])]])]))"
proof -
  have h: "expected_shape
     (JObject [(ascii ''result_count'', JInt 1),
               (ascii ''results'',
                  JArray [JObject [(ascii ''number'', JString (ascii ''1234567890'')),
                                   (ascii ''basic'', JObject [(ascii ''status'', JString (ascii ''A''))])]])])"
    by (simp add: ascii_def)
  show ?thesis
    using h mapper_total_on_expected_shape [OF h, of "ascii ''1234567890''"] by simp
qed

text \<open>
  The document \<^verbatim>\<open>{"results": [{"basic": {"status": 1}}]}\<close>: the status is a number,
  \<^verbatim>\<open>(1 or "")\<close> is \<^verbatim>\<open>1\<close>, and \<^verbatim>\<open>.upper()\<close> raises \<^verbatim>\<open>AttributeError\<close>.
\<close>

theorem mapper_raises_on_numeric_status:
  "response_mapper (ascii ''1234567890'')
     (JObject [(ascii ''results'',
        JArray [JObject [(ascii ''basic'', JObject [(ascii ''status'', JInt 1)])]])])
   = Inl AttributeError"
  by (simp add: response_mapper_def py_or_def ascii_def)

subsection \<open>C9: the HTTP client and its pool\<close>

text \<open>
  Claim C9, as amended: every request that passes validation constructs one client of its
  own, with a timeout of 5 seconds and limits of 10 connections and 5 keep-alive
  connections, issues exactly one GET through it, and closes it before the handler
  returns: the clients that were open before are the ones open after, and the next request
  gets a new client. The claim as it stands has one pool shared by all requests; only the
  settings (lines 82 and 83) are shared.
\<close>

theorem client_constructed_per_request:
  assumes "py_isdigit number" and "length number = 10"
  shows "upstream_calls (snd (check_npi reply number s)) =
           upstream_calls s @
             [(\<lparr>client_id = next_client s, client_timeout = 5,
                client_limits = \<lparr>max_keepalive_connections = 5, max_connections = 10\<rparr>\<rparr>,
               NPPES_API, [(ascii ''version'', ascii ''2.1''), (ascii ''number'', number)])]
       \<and> next_client (snd (check_npi reply number s)) = Suc (next_client s)
       \<and> open_clients (snd (check_npi reply number s)) = open_clients s"
  using check_npi_calls [OF assms, of reply s]
  by (simp add: new_client_def check_npi_params_def)

theorem client_constructed_per_request_witness:
  "py_isdigit (ascii ''1234567890'') \<and> length (ascii ''1234567890'') = 10
   \<and> upstream_calls (snd (check_npi (Inl (ascii ''timed out'')) (ascii ''1234567890'') server0)) =
             [(\<lparr>client_id = 0, client_timeout = 5,
                client_limits = \<lparr>max_keepalive_connections = 5, max_connections = 10\<rparr>\<rparr>,
               NPPES_API, [(ascii ''version'', ascii ''2.1''), (ascii ''number'', ascii ''1234567890'')])]
   \<and> next_client (snd (check_npi (Inl (ascii ''timed out'')) (ascii ''1234567890'') server0)) = 1
   \<and> open_clients (snd (check_npi (Inl (ascii ''timed out'')) (ascii ''1234567890'') server0)) = []"
  using client_constructed_per_request [OF isdigit_1234567890 length_1234567890, of "Inl (ascii ''timed out'')" server0]
    isdigit_1234567890 length_1234567890
  by (simp add: server0_def)

text \<open>
  Two requests, one after the other, in a process that has just started: the GETs go
  through the clients 0 and 1, and no client is left open between the two.
\<close>

theorem pool_not_shared_between_requests:
  "map (\<lambda>(client, url, params). client_id client)
     (upstream_calls
        (snd (check_npi (Inr \<lparr>status_code = 200, json_body = Some (JObject [])\<rparr>) (ascii ''1234567890'')
           (snd (check_npi (Inr \<lparr>status_code = 200, json_body = Some (JObject [])\<rparr>)
                   (ascii ''1234567890'') server0))))) = [0, 1]
   \<and> open_clients (snd (check_npi (Inr \<lparr>status_code = 200, json_body = Some (JObject [])\<rparr>)
                   (ascii ''1234567890'') server0)) = []"
proof -
  let ?r = "Inr \<lparr>status_code = 200, json_body = Some (JObject [])\<rparr> :: upstream_reply"
  let ?s1 = "snd (check_npi ?r (ascii ''1234567890'') server0)"
  note c = check_npi_calls [OF isdigit_1234567890 length_1234567890]
  have 1: "upstream_calls ?s1 = [(new_client server0, NPPES_API, check_npi_params (ascii ''1234567890''))]"
    and 2: "next_client ?s1 = 1" and 3: "open_clients ?s1 = []"
    using c [of ?r server0] by (simp_all add: server0_def)
  have "upstream_calls (snd (check_npi ?r (ascii ''1234567890'') ?s1)) =
          [(new_client server0, NPPES_API, check_npi_params (ascii ''1234567890'')),
           (new_client ?s1, NPPES_API, check_npi_params (ascii ''1234567890''))]"
    using c [of ?r ?s1] 1 by simp
  then show ?thesis
    using 2 3 by (simp add: new_client_def server0_def)
qed

subsection \<open>C10: a status that is absent or null\<close>

text \<open>
  Claim C10, as amended: for a document with a non-empty results array whose first element
  is an object, with basic absent or an object, in which status is absent or null, the
  mapper takes the status to be the empty string and returns the inactive body with the
  number. The claim as it stands covers every document in which no status can be read
  from the first result; the counterexample below has two such documents on which the
  mapper raises.
\<close>

theorem missing_status_is_inactive:
  assumes results: "map_of doc (ascii ''results'') = Some (JArray (JObject entry # rest))"
      and basic: "dict_get (JObject entry) (ascii ''basic'') (JObject []) = Inr (JObject basic)"
      and status: "map_of basic (ascii ''status'') = None \<or> map_of basic (ascii ''status'') = Some JNull"
  shows "str_upper (py_or (case map_of basic (ascii ''status'') of None \<Rightarrow> JNull | Some v \<Rightarrow> v)
           (JString [])) = Inr []
       \<and> response_mapper number (JObject doc) =
           Inr (JObject [(ascii ''ok'', JBool False), (ascii ''reason'', JString (ascii ''inactive'')),
                         (ascii ''number'', JString number)])"
proof -
  have u: "str_upper (py_or (case map_of basic (ascii ''status'') of None \<Rightarrow> JNull | Some v \<Rightarrow> v)
           (JString [])) = Inr []"
    using status by (auto simp: py_or_def upper_empty)
  have "response_mapper number (JObject doc) = Inr (inactive_body number)"
    by (simp add: mapper_first_entry [OF results] entry_outcome_object [OF basic u] empty_not_A)
  then show ?thesis
    using u by (simp add: inactive_body_def)
qed

theorem missing_status_is_inactive_witness:
  "response_mapper (ascii ''1234567890'')
     (JObject [(ascii ''results'',
        JArray [JObject [(ascii ''basic'', JObject [(ascii ''status'', JNull)])]])])
   = Inr (JObject [(ascii ''ok'', JBool False), (ascii ''reason'', JString (ascii ''inactive'')),
                   (ascii ''number'', JString (ascii ''1234567890''))])
   \<and> response_mapper (ascii ''1234567890'')
     (JObject [(ascii ''results'', JArray [JObject [(ascii ''number'', JInt 1234567890)]])])
   = Inr (JObject [(ascii ''ok'', JBool False), (ascii ''reason'', JString (ascii ''inactive'')),
                   (ascii ''number'', JString (ascii ''1234567890''))])"
  using missing_status_is_inactive
          [of "[(ascii ''results'',
                 JArray [JObject [(ascii ''basic'', JObject [(ascii ''status'', JNull)])]])]"
              "[(ascii ''basic'', JObject [(ascii ''status'', JNull)])]" "[]"
              "[(ascii ''status'', JNull)]" "ascii ''1234567890''"]
        missing_status_is_inactive
          [of "[(ascii ''results'', JArray [JObject [(ascii ''number'', JInt 1234567890)]])]"
              "[(ascii ''number'', JInt 1234567890)]" "[]" "[]" "ascii ''1234567890''"]
  by (simp add: ascii_def)

text \<open>
  The documents \<^verbatim>\<open>{"results": [{"basic": null}]}\<close> and \<^verbatim>\<open>{"results": [null]}\<close>: there is no
  status to read in either, and \<^verbatim>\<open>None.get\<close> raises \<^verbatim>\<open>AttributeError\<close> at line 116 and at
  line 115.
\<close>

theorem missing_status_raises_without_basic_object:
  "response_mapper (ascii ''1234567890'')
     (JObject [(ascii ''results'', JArray [JObject [(ascii ''basic'', JNull)]])])
   = Inl AttributeError
   \<and> response_mapper (ascii ''1234567890'')
     (JObject [(ascii ''results'', JArray [JNull])])
   = Inl AttributeError"
  by (simp add: response_mapper_def ascii_def)

end
